theory Spec2Isabelle
  imports Main "HOL-Library.Multiset"
begin

section \<open>Data model\<close>

text \<open>
  JavaScript strings are sequences of UTF-16 code units; a string is modelled as the list
  of its code units, so that \<open>String.prototype.trim\<close> can be written with the
  white space of ECMAScript (which has code points beyond ASCII).
\<close>

type_synonym jsstring = "nat list"

text \<open>
  A document of the table \<open>todos\<close> (convex/schema.ts): the two declared fields \<open>text\<close>
  and \<open>isCompleted\<close>, and the two fields the platform gives every document, \<open>_id\<close> and
  \<open>_creationTime\<close>.
\<close>

record todo =
  doc_id :: nat
  creationTime :: nat
  doc_text :: jsstring
  isCompleted :: bool

text \<open>
  The platform's store, as far as the four handlers see it: the documents of the table
  \<open>todos\<close>, the next identifier the platform hands out and its clock.
\<close>

record db =
  todos_table :: "todo list"
  nextId :: nat
  clock :: nat

datatype error = Error string

section \<open>The platform's database primitives\<close>

text \<open>
  \<open>ctx.db\<close> belongs to the hosted platform, not to the repository. Its primitives are
  written here as the spec (sections 3 and 4.1) and the guide describe them: the platform
  assigns \<open>_id\<close> and \<open>_creationTime\<close>, a query with \<open>order("desc")\<close> gives the newest
  record first, and a mutation runs as one transaction on the store.
\<close>

definition db_get :: "db \<Rightarrow> nat \<Rightarrow> todo option" where
  \<comment> \<open>Modelled from the spec: \<open>ctx.db.get(id)\<close>, the document with that identifier,
      or null when there is none.\<close>
  "db_get d i = find (\<lambda>t. doc_id t = i) (todos_table d)"

definition db_insert :: "db \<Rightarrow> jsstring \<Rightarrow> bool \<Rightarrow> nat \<times> db" where
  \<comment> \<open>Modelled from the spec: \<open>ctx.db.insert("todos", fields)\<close>; the platform assigns the
      identifier and the creation time, and returns the identifier.\<close>
  "db_insert d txt c =
     (nextId d,
      d\<lparr>todos_table := todos_table d @
            [\<lparr>doc_id = nextId d, creationTime = clock d, doc_text = txt, isCompleted = c\<rparr>],
        nextId := Suc (nextId d),
        clock := Suc (clock d)\<rparr>)"

record patch =
  patch_text :: "jsstring option"
  patch_isCompleted :: "bool option"

definition merge_patch :: "patch \<Rightarrow> todo \<Rightarrow> todo" where
  "merge_patch p t =
     t\<lparr>doc_text := (case patch_text p of None \<Rightarrow> doc_text t | Some s \<Rightarrow> s),
       isCompleted := (case patch_isCompleted p of None \<Rightarrow> isCompleted t | Some b \<Rightarrow> b)\<rparr>"

definition db_patch :: "db \<Rightarrow> nat \<Rightarrow> patch \<Rightarrow> db" where
  \<comment> \<open>Modelled from the spec: \<open>ctx.db.patch(id, fields)\<close>, a shallow merge of the given
      fields into the document with that identifier. The handlers only patch a document
      they have just read.\<close>
  "db_patch d i p =
     d\<lparr>todos_table := map (\<lambda>t. if doc_id t = i then merge_patch p t else t) (todos_table d)\<rparr>"

definition db_delete :: "db \<Rightarrow> nat \<Rightarrow> error + db" where
  \<comment> \<open>Modelled from the spec: \<open>ctx.db.delete(id)\<close> deletes the record if present and
      silently succeeds on a missing identifier.\<close>
  "db_delete d i = Inr (d\<lparr>todos_table := filter (\<lambda>t. doc_id t \<noteq> i) (todos_table d)\<rparr>)"

datatype direction = Asc | Desc

definition db_query :: "db \<Rightarrow> todo list" where
  \<comment> \<open>Modelled from the spec: \<open>ctx.db.query("todos")\<close>, every document of the table in
      the order of the creation times.\<close>
  "db_query d = sort_key creationTime (todos_table d)"

fun order :: "direction \<Rightarrow> todo list \<Rightarrow> todo list" where
  "order Asc q = q"
| "order Desc q = rev q"

definition collect :: "todo list \<Rightarrow> todo list" where
  "collect q = q"

section \<open>convex/todos.ts\<close>

definition list_todos :: "db \<Rightarrow> todo list" where
  "list_todos d = collect (order Desc (db_query d))"

definition add :: "db \<Rightarrow> jsstring \<Rightarrow> error + db" where
  "add d txt = Inr (snd (db_insert d txt False))"

definition toggle :: "db \<Rightarrow> nat \<Rightarrow> error + db" where
  "toggle d i =
     (case db_get d i of
        None \<Rightarrow> Inl (Error ''Todo not found'')
      | Some t \<Rightarrow>
          Inr (db_patch d i \<lparr>patch_text = None, patch_isCompleted = Some (\<not> isCompleted t)\<rparr>))"

definition remove :: "db \<Rightarrow> nat \<Rightarrow> error + db" where
  "remove d i = db_delete d i"

text \<open>Invoking \<open>toggle\<close> on the same identifier \<open>n\<close> times in a row.\<close>

fun toggle_n :: "nat \<Rightarrow> db \<Rightarrow> nat \<Rightarrow> error + db" where
  "toggle_n 0 d i = Inr d"
| "toggle_n (Suc n) d i = (case toggle d i of Inl e \<Rightarrow> Inl e | Inr d' \<Rightarrow> toggle_n n d' i)"

section \<open>src/App.tsx\<close>

text \<open>
  \<open>String.prototype.trim\<close> removes the leading and trailing WhiteSpace and LineTerminator
  code points of ECMAScript: TAB, LF, VT, FF, CR, SP, NBSP, U+1680, U+2000 to U+200A,
  U+2028, U+2029, U+202F, U+205F, U+3000 and U+FEFF.
\<close>

definition is_whitespace :: "nat \<Rightarrow> bool" where
  "is_whitespace c \<longleftrightarrow>
     c \<in> set [9, 10, 11, 12, 13, 32, 160, 5760, 8232, 8233, 8239, 8287, 12288, 65279]
     \<or> (8192 \<le> c \<and> c \<le> 8202)"

definition trim :: "jsstring \<Rightarrow> jsstring" where
  "trim s = rev (dropWhile is_whitespace (rev (dropWhile is_whitespace s)))"

text \<open>
  The component's state: the result of \<open>useQuery(api.todos.list)\<close>, which is
  \<open>undefined\<close> (here \<open>None\<close>) until the first result arrives, and the text field's buffer.
\<close>

record app =
  todos :: "todo list option"
  input :: jsstring

text \<open>
  A call of one of the three mutation functions \<open>addTodo\<close>, \<open>toggleTodo\<close> and
  \<open>removeTodo\<close> with its argument. The component never awaits the promise a call
  returns, so a handler is a function from the component's state to the calls it issues
  and the next state.
\<close>

datatype call = AddTodo jsstring | ToggleTodo nat | RemoveTodo nat

definition handleSubmit :: "app \<Rightarrow> call list \<times> app" where
  \<comment> \<open>\<open>e.preventDefault()\<close> touches neither the buffer nor the calls.\<close>
  "handleSubmit a =
     (let text = trim (input a) in
      if text = [] then ([], a)
      else ([AddTodo text], a\<lparr>input := []\<rparr>))"

definition remaining :: "app \<Rightarrow> nat" where
  "remaining a =
     (case todos a of
        None \<Rightarrow> 0
      | Some ts \<Rightarrow> length (filter (\<lambda>t. \<not> isCompleted t) ts))"

definition onChange :: "todo \<Rightarrow> call list" where
  "onChange t = [ToggleTodo (doc_id t)]"

definition onClick :: "todo \<Rightarrow> call list" where
  "onClick t = [RemoveTodo (doc_id t)]"

text \<open>What the component renders: the submit button, the list area and the footer.\<close>

record li =
  li_key :: nat
  checked :: bool
  line_through :: bool
  label :: jsstring
  checkbox_onChange :: "call list"
  button_onClick :: "call list"

datatype element = P string | Ul "li list"

datatype child = Num nat | Str string

record view =
  submit_disabled :: bool
  list_area :: element
  footer :: "child list option"

definition render_todo :: "todo \<Rightarrow> li" where
  "render_todo t =
     \<lparr>li_key = doc_id t, checked = isCompleted t, line_through = isCompleted t,
      label = doc_text t, checkbox_onChange = onChange t, button_onClick = onClick t\<rparr>"

definition App :: "app \<Rightarrow> view" where
  "App a =
     \<lparr>submit_disabled = (trim (input a) = []),
      list_area =
        (case todos a of
           None \<Rightarrow> P ''Loading...''
         | Some ts \<Rightarrow>
             if length ts = 0 then P ''No todos yet. Add one above!''
             else Ul (map render_todo ts)),
      footer =
        (case todos a of
           None \<Rightarrow> None
         | Some ts \<Rightarrow>
             if length ts > 0
             then Some [Num (remaining a), Str '' item'',
                        Str (if remaining a \<noteq> 1 then ''s'' else ''''), Str '' remaining'']
             else None)\<rparr>"

section \<open>The component and the platform together\<close>

text \<open>
  The platform runs a call some time after the component has issued it. Until then the
  call is pending.
\<close>

record system =
  client :: app
  platform :: db
  pending :: "call list"

fun run_call :: "db \<Rightarrow> call \<Rightarrow> error + db" where
  "run_call d (AddTodo txt) = add d txt"
| "run_call d (ToggleTodo i) = toggle d i"
| "run_call d (RemoveTodo i) = remove d i"

definition submit :: "system \<Rightarrow> system" where
  "submit s =
     (case handleSubmit (client s) of
        (calls, a) \<Rightarrow> s\<lparr>client := a, pending := pending s @ calls\<rparr>)"

text \<open>The store of a fresh deployment.\<close>

definition empty_db :: db where
  "empty_db = \<lparr>todos_table = [], nextId = 0, clock = 0\<rparr>"

section \<open>Example states\<close>

definition buy_milk :: jsstring where
  "buy_milk = map of_char ''Buy milk''"

definition milk :: todo where
  "milk = \<lparr>doc_id = 0, creationTime = 0, doc_text = buy_milk, isCompleted = False\<rparr>"

definition eggs :: todo where
  "eggs = \<lparr>doc_id = 1, creationTime = 1, doc_text = map of_char ''Eggs'', isCompleted = True\<rparr>"

definition one_todo :: db where
  "one_todo = \<lparr>todos_table = [milk], nextId = 1, clock = 1\<rparr>"

definition one_done :: db where
  "one_done = \<lparr>todos_table = [milk\<lparr>isCompleted := True\<rparr>], nextId = 1, clock = 1\<rparr>"

definition two_todos :: db where
  "two_todos = \<lparr>todos_table = [milk, eggs], nextId = 2, clock = 2\<rparr>"

definition padded :: jsstring where
  "padded = map of_char ''  Buy milk ''"

definition typing :: system where
  "typing =
     \<lparr>client = \<lparr>todos = Some [], input = padded\<rparr>,
      platform = empty_db, pending = []\<rparr>"

definition blank :: system where
  "blank =
     \<lparr>client = \<lparr>todos = Some [], input = [32, 9, 160]\<rparr>,
      platform = empty_db, pending = []\<rparr>"

section \<open>Facts about the store\<close>

lemma db_get_None_iff: "db_get d i = None \<longleftrightarrow> i \<notin> doc_id ` set (todos_table d)"
  by (auto simp: db_get_def find_None_iff)

lemma find_map_patch:
  "find (\<lambda>t. doc_id t = i) (map (\<lambda>t. if doc_id t = i then merge_patch p t else t) ts) =
     map_option (merge_patch p) (find (\<lambda>t. doc_id t = i) ts)"
  by (induction ts) (auto simp: merge_patch_def)

lemma find_map_patch_other:
  "j \<noteq> i \<Longrightarrow>
   find (\<lambda>t. doc_id t = j) (map (\<lambda>t. if doc_id t = i then merge_patch p t else t) ts) =
     find (\<lambda>t. doc_id t = j) ts"
  by (induction ts) (auto simp: merge_patch_def)

lemma find_filter_other:
  "j \<noteq> i \<Longrightarrow>
   find (\<lambda>t. doc_id t = j) (filter (\<lambda>t. doc_id t \<noteq> i) ts) = find (\<lambda>t. doc_id t = j) ts"
  by (induction ts) auto

lemma db_get_patch: "db_get (db_patch d i p) i = map_option (merge_patch p) (db_get d i)"
  by (simp add: db_get_def db_patch_def find_map_patch)

lemma db_get_patch_other: "j \<noteq> i \<Longrightarrow> db_get (db_patch d i p) j = db_get d j"
  by (simp add: db_get_def db_patch_def find_map_patch_other)

lemma db_patch_frame:
  "nextId (db_patch d i p) = nextId d \<and> clock (db_patch d i p) = clock d
   \<and> length (todos_table (db_patch d i p)) = length (todos_table d)"
  by (simp add: db_patch_def)

lemma merge_patch_flag:
  "merge_patch \<lparr>patch_text = None, patch_isCompleted = Some b\<rparr> t = t\<lparr>isCompleted := b\<rparr>"
  by (simp add: merge_patch_def)

section \<open>Facts about the handlers\<close>

lemma toggle_None: "db_get d i = None \<Longrightarrow> toggle d i = Inl (Error ''Todo not found'')"
  by (simp add: toggle_def)

lemma toggle_Some:
  "db_get d i = Some t \<Longrightarrow>
   toggle d i =
     Inr (db_patch d i \<lparr>patch_text = None, patch_isCompleted = Some (\<not> isCompleted t)\<rparr>)"
  by (simp add: toggle_def)

lemma toggle_flips:
  assumes "db_get d i = Some t"
  shows "\<exists>d'. toggle d i = Inr d' \<and> db_get d' i = Some (t\<lparr>isCompleted := \<not> isCompleted t\<rparr>)"
proof -
  let ?p = "\<lparr>patch_text = None, patch_isCompleted = Some (\<not> isCompleted t)\<rparr>"
  have "toggle d i = Inr (db_patch d i ?p)"
    by (rule toggle_Some [OF assms])
  moreover have "db_get (db_patch d i ?p) i = Some (t\<lparr>isCompleted := \<not> isCompleted t\<rparr>)"
    by (simp only: db_get_patch assms option.map merge_patch_flag)
  ultimately show ?thesis by blast
qed

lemma add_appends:
  "add d txt =
     Inr (d\<lparr>todos_table := todos_table d @
              [\<lparr>doc_id = nextId d, creationTime = clock d, doc_text = txt, isCompleted = False\<rparr>],
            nextId := Suc (nextId d), clock := Suc (clock d)\<rparr>)"
  by (simp add: add_def db_insert_def)

lemma dropWhile_all_again:
  "(\<forall>x \<in> set (dropWhile Q xs). Q x) \<longleftrightarrow> (\<forall>x \<in> set xs. Q x)"
  by (induction xs) auto

lemma trim_empty_iff: "trim s = [] \<longleftrightarrow> (\<forall>c \<in> set s. is_whitespace c)"
  by (simp add: trim_def dropWhile_all_again)

section \<open>Facts about the example states\<close>

lemma trim_padded: "trim padded = buy_milk"
  by (simp add: trim_def is_whitespace_def buy_milk_def padded_def)

lemma buy_milk_not_empty: "buy_milk \<noteq> []"
  by (simp add: buy_milk_def)

lemma get_milk: "db_get one_todo 0 = Some milk"
  by (simp add: db_get_def one_todo_def milk_def)

lemma toggle_milk: "toggle one_todo 0 = Inr one_done"
  by (simp add: toggle_def db_get_def db_patch_def merge_patch_def one_todo_def one_done_def
      milk_def)

lemma toggle_milk_back: "toggle one_done 0 = Inr one_todo"
  by (simp add: toggle_def db_get_def db_patch_def merge_patch_def one_todo_def one_done_def
      milk_def)

section \<open>The form\<close>

text \<open>
  C1. When the buffer is not empty after trimming, \<open>handleSubmit\<close> issues exactly one call,
  \<open>addTodo\<close> with the trimmed buffer. The submit step clears the buffer and leaves the
  call pending, with the platform's store as it was: the component does not wait for the
  call. When the platform runs the call, it adds exactly one record, whose text is the
  trimmed buffer and whose completion flag is false.
\<close>

theorem submit_adds_trimmed:
  "trim (input (client s)) \<noteq> [] \<Longrightarrow>
   fst (handleSubmit (client s)) = [AddTodo (trim (input (client s)))]
   \<and> submit s = s\<lparr>client := (client s)\<lparr>input := []\<rparr>,
                   pending := pending s @ [AddTodo (trim (input (client s)))]\<rparr>
   \<and> run_call d (AddTodo (trim (input (client s)))) =
       Inr (d\<lparr>todos_table := todos_table d @
                [\<lparr>doc_id = nextId d, creationTime = clock d,
                  doc_text = trim (input (client s)), isCompleted = False\<rparr>],
              nextId := Suc (nextId d), clock := Suc (clock d)\<rparr>)"
  by (simp add: handleSubmit_def submit_def add_appends)

theorem submit_adds_trimmed_witness:
  "trim (input (client typing)) \<noteq> []
   \<and> fst (handleSubmit (client typing)) = [AddTodo buy_milk]
   \<and> submit typing =
       \<lparr>client = \<lparr>todos = Some [], input = []\<rparr>, platform = empty_db,
        pending = [AddTodo buy_milk]\<rparr>
   \<and> run_call empty_db (AddTodo buy_milk) = Inr one_todo"
proof -
  have h: "trim (input (client typing)) \<noteq> []"
    by (simp add: typing_def trim_padded buy_milk_not_empty)
  show ?thesis
    using h submit_adds_trimmed [OF h, of empty_db]
    by (simp add: typing_def trim_padded empty_db_def one_todo_def milk_def)
qed

text \<open>
  C7. When the buffer is empty or holds white space only, \<open>handleSubmit\<close> issues no call
  and the submit step changes nothing: no call becomes pending and the platform's store,
  hence its set of records, is as it was.
\<close>

theorem blank_submit_ignored:
  "(\<forall>c \<in> set (input (client s)). is_whitespace c) \<Longrightarrow>
   fst (handleSubmit (client s)) = [] \<and> submit s = s"
  by (simp add: handleSubmit_def submit_def trim_empty_iff)

theorem blank_submit_ignored_witness:
  "is_whitespace 32 \<and> is_whitespace 9 \<and> is_whitespace 160
   \<and> input (client blank) = [32, 9, 160]
   \<and> fst (handleSubmit (client blank)) = [] \<and> submit blank = blank"
proof -
  have h: "\<forall>c \<in> set (input (client blank)). is_whitespace c"
    by (simp add: blank_def is_whitespace_def)
  show ?thesis
    using h blank_submit_ignored [OF h]
    by (simp add: blank_def)
qed

section \<open>The mutations\<close>

text \<open>
  C2. \<open>toggle\<close> fails with the error "Todo not found" exactly when no record of the table
  has the identifier, and it fails with no other error. When the store holds a record
  with the identifier, \<open>toggle\<close> succeeds and the new store holds that record with its
  completion flag negated; every other record, the identifier counter and the clock are
  as they were.
\<close>

theorem toggle_not_found_iff:
  "(toggle d i = Inl (Error ''Todo not found'') \<longleftrightarrow> i \<notin> doc_id ` set (todos_table d))
   \<and> (\<forall>e. toggle d i = Inl e \<longrightarrow> e = Error ''Todo not found'')
   \<and> (\<forall>t. db_get d i = Some t \<longrightarrow>
         (\<exists>d'. toggle d i = Inr d'
            \<and> db_get d' i = Some (t\<lparr>isCompleted := \<not> isCompleted t\<rparr>)
            \<and> (\<forall>j. j \<noteq> i \<longrightarrow> db_get d' j = db_get d j)
            \<and> nextId d' = nextId d \<and> clock d' = clock d
            \<and> length (todos_table d') = length (todos_table d)))"
proof (cases "db_get d i")
  case None
  have "i \<notin> doc_id ` set (todos_table d)"
    using None db_get_None_iff [of d i] by simp
  then show ?thesis
    using None toggle_None [OF None] by simp
next
  case (Some t)
  let ?p = "\<lparr>patch_text = None, patch_isCompleted = Some (\<not> isCompleted t)\<rparr>"
  have mem: "i \<in> doc_id ` set (todos_table d)"
    using Some db_get_None_iff [of d i] by simp
  have run: "toggle d i = Inr (db_patch d i ?p)"
    by (rule toggle_Some [OF Some])
  have new: "db_get (db_patch d i ?p) i = Some (t\<lparr>isCompleted := \<not> isCompleted t\<rparr>)"
    by (simp only: db_get_patch Some option.map merge_patch_flag)
  have others: "\<forall>j. j \<noteq> i \<longrightarrow> db_get (db_patch d i ?p) j = db_get d j"
    by (simp add: db_get_patch_other)
  have a: "toggle d i = Inl (Error ''Todo not found'') \<longleftrightarrow> i \<notin> doc_id ` set (todos_table d)"
    using mem run by simp
  have b: "\<forall>e. toggle d i = Inl e \<longrightarrow> e = Error ''Todo not found''"
    using run by simp
  have c: "\<forall>t'. db_get d i = Some t' \<longrightarrow>
         (\<exists>d'. toggle d i = Inr d'
            \<and> db_get d' i = Some (t'\<lparr>isCompleted := \<not> isCompleted t'\<rparr>)
            \<and> (\<forall>j. j \<noteq> i \<longrightarrow> db_get d' j = db_get d j)
            \<and> nextId d' = nextId d \<and> clock d' = clock d
            \<and> length (todos_table d') = length (todos_table d))"
    using Some run new others db_patch_frame [of d i ?p] by auto
  from a b c show ?thesis by blast
qed

theorem toggle_not_found_iff_witness:
  "db_get one_todo 0 = Some milk
   \<and> toggle one_todo 0 = Inr one_done
   \<and> db_get one_done 0 = Some (milk\<lparr>isCompleted := \<not> isCompleted milk\<rparr>)
   \<and> 7 \<notin> doc_id ` set (todos_table one_todo)
   \<and> toggle one_todo 7 = Inl (Error ''Todo not found'')"
proof -
  have missing: "7 \<notin> doc_id ` set (todos_table one_todo)"
    by (simp add: one_todo_def milk_def)
  have failed: "toggle one_todo 7 = Inl (Error ''Todo not found'')"
    using missing toggle_not_found_iff [of one_todo 7] by blast
  have "\<exists>d'. toggle one_todo 0 = Inr d'
      \<and> db_get d' 0 = Some (milk\<lparr>isCompleted := \<not> isCompleted milk\<rparr>)"
    using get_milk toggle_not_found_iff [of one_todo 0] by blast
  then have flipped: "db_get one_done 0 = Some (milk\<lparr>isCompleted := \<not> isCompleted milk\<rparr>)"
    by (simp add: toggle_milk)
  from get_milk toggle_milk flipped missing failed show ?thesis
    by blast
qed

text \<open>
  C3. \<open>remove\<close> is the platform's delete and nothing else: it reads nothing and checks
  nothing before it. It succeeds for every identifier; afterwards no record has the
  identifier, every other record is as it was, and when no record had the identifier the
  store is unchanged.
\<close>

theorem remove_deletes_or_succeeds:
  "remove d i = db_delete d i
   \<and> remove d i = Inr (d\<lparr>todos_table := filter (\<lambda>t. doc_id t \<noteq> i) (todos_table d)\<rparr>)
   \<and> (\<forall>d'. remove d i = Inr d' \<longrightarrow>
         db_get d' i = None \<and> (\<forall>j. j \<noteq> i \<longrightarrow> db_get d' j = db_get d j)
         \<and> (db_get d i = None \<longrightarrow> d' = d))"
proof -
  let ?d = "d\<lparr>todos_table := filter (\<lambda>t. doc_id t \<noteq> i) (todos_table d)\<rparr>"
  have run: "remove d i = Inr ?d"
    by (simp add: remove_def db_delete_def)
  have gone: "db_get ?d i = None"
    by (simp add: db_get_def find_None_iff)
  have others: "\<forall>j. j \<noteq> i \<longrightarrow> db_get ?d j = db_get d j"
    by (simp add: db_get_def find_filter_other)
  have same: "db_get d i = None \<longrightarrow> ?d = d"
    by (simp add: db_get_def find_None_iff filter_id_conv)
  show ?thesis
    using run gone others same by (simp add: remove_def)
qed

theorem remove_deletes_or_succeeds_witness:
  "remove one_todo 0 = Inr \<lparr>todos_table = [], nextId = 1, clock = 1\<rparr>
   \<and> db_get one_todo 7 = None
   \<and> remove one_todo 7 = Inr one_todo"
proof -
  have missing: "db_get one_todo 7 = None"
    by (simp add: db_get_def one_todo_def milk_def)
  show ?thesis
    using missing remove_deletes_or_succeeds [of one_todo 7]
      remove_deletes_or_succeeds [of one_todo 0]
    by (simp add: remove_def db_delete_def one_todo_def milk_def)
qed

text \<open>
  C6. On a store that holds a record with the identifier, \<open>n\<close> invocations of \<open>toggle\<close> in
  a row all succeed; the record's completion flag is then its original value when \<open>n\<close>
  is even and the negation of it when \<open>n\<close> is odd.
\<close>

theorem toggle_n_parity:
  "db_get d i = Some t \<Longrightarrow>
   \<exists>d'. toggle_n n d i = Inr d'
     \<and> db_get d' i =
         Some (t\<lparr>isCompleted := (if even n then isCompleted t else \<not> isCompleted t)\<rparr>)"
proof (induction n arbitrary: d t)
  case 0
  then show ?case by simp
next
  case (Suc n)
  from toggle_flips [OF Suc.prems] obtain d1 where
    run: "toggle d i = Inr d1" and
    got: "db_get d1 i = Some (t\<lparr>isCompleted := \<not> isCompleted t\<rparr>)"
    by blast
  from Suc.IH [OF got] obtain d2 where
    "toggle_n n d1 i = Inr d2" and
    "db_get d2 i = Some (t\<lparr>isCompleted := \<not> isCompleted t,
        isCompleted := (if even n then isCompleted (t\<lparr>isCompleted := \<not> isCompleted t\<rparr>)
                        else \<not> isCompleted (t\<lparr>isCompleted := \<not> isCompleted t\<rparr>))\<rparr>)"
    by blast
  with run show ?case by simp
qed

theorem toggle_n_parity_witness:
  "db_get one_todo 0 = Some milk
   \<and> toggle_n (Suc (Suc 0)) one_todo 0 = Inr one_todo
   \<and> toggle_n (Suc (Suc (Suc 0))) one_todo 0 = Inr one_done"
proof -
  have two: "toggle_n (Suc (Suc 0)) one_todo 0 = Inr one_todo"
    by (simp add: toggle_milk toggle_milk_back)
  have three: "toggle_n (Suc (Suc (Suc 0))) one_todo 0 =
      Inr one_done"
    by (simp add: toggle_milk toggle_milk_back)
  show ?thesis
    using two three toggle_n_parity [OF get_milk, of "Suc (Suc 0)"]
    by (simp add: get_milk)
qed

text \<open>
  C9, as amended. \<open>add\<close> succeeds for every string, the empty one included, and adds one
  record, whose text is the argument and whose completion flag is false. Every call that
  \<open>handleSubmit\<close> issues is an \<open>addTodo\<close> with a non-empty text.
\<close>

theorem add_stores_argument:
  "add d txt =
     Inr (d\<lparr>todos_table := todos_table d @
              [\<lparr>doc_id = nextId d, creationTime = clock d, doc_text = txt, isCompleted = False\<rparr>],
            nextId := Suc (nextId d), clock := Suc (clock d)\<rparr>)
   \<and> (\<forall>c \<in> set (fst (handleSubmit a)). \<exists>txt'. c = AddTodo txt' \<and> txt' \<noteq> [])"
  by (simp add: add_appends handleSubmit_def Let_def)

theorem add_stores_argument_witness:
  "AddTodo buy_milk \<in> set (fst (handleSubmit (client typing)))
   \<and> buy_milk \<noteq> []
   \<and> add empty_db buy_milk = Inr one_todo"
proof -
  have h: "AddTodo buy_milk \<in> set (fst (handleSubmit (client typing)))"
    by (simp add: handleSubmit_def typing_def trim_padded buy_milk_not_empty)
  show ?thesis
    using h add_stores_argument [of empty_db buy_milk "client typing"]
    by (simp add: buy_milk_not_empty empty_db_def one_todo_def milk_def)
qed

text \<open>
  C9, as stated, fails: \<open>add\<close> with the empty string on the store of a fresh deployment
  creates a record whose text is empty.
\<close>

theorem add_empty_text_counterexample:
  "add empty_db [] =
     Inr \<lparr>todos_table = [\<lparr>doc_id = 0, creationTime = 0, doc_text = [], isCompleted = False\<rparr>],
          nextId = 1, clock = 1\<rparr>"
  by (simp add: add_def db_insert_def empty_db_def)

section \<open>The query\<close>

text \<open>
  C5. \<open>list\<close> takes the store only. Its result holds exactly the records of the table,
  each as often as the table does, and is ordered by creation time, newest first.
\<close>

theorem list_newest_first:
  "mset (list_todos d) = mset (todos_table d)
   \<and> sorted_wrt (\<lambda>a b. creationTime a \<ge> creationTime b) (list_todos d)"
proof -
  have "sorted (map creationTime (sort_key creationTime (todos_table d)))"
    by (rule sorted_sort_key)
  then have "sorted_wrt (\<lambda>a b. creationTime a \<le> creationTime b)
      (sort_key creationTime (todos_table d))"
    by (simp only: sorted_map)
  then show ?thesis
    by (simp add: list_todos_def collect_def db_query_def sorted_wrt_rev)
qed

theorem list_newest_first_witness:
  "list_todos two_todos = [eggs, milk]
   \<and> sorted_wrt (\<lambda>a b. creationTime a \<ge> creationTime b) (list_todos two_todos)"
proof -
  have "list_todos two_todos = [eggs, milk]"
    by (simp add: list_todos_def collect_def db_query_def two_todos_def milk_def eggs_def)
  then show ?thesis
    using list_newest_first [of two_todos] by simp
qed

section \<open>The view\<close>

text \<open>
  C4. For every delivered list, the empty one included, \<open>remaining\<close> is the number of
  positions of the list that hold a record whose completion flag is false.
\<close>

theorem remaining_counts_incomplete:
  "remaining (a\<lparr>todos := Some ts\<rparr>) = card {k. k < length ts \<and> \<not> isCompleted (ts ! k)}"
  by (simp add: remaining_def length_filter_conv_card)

theorem remaining_counts_incomplete_witness:
  "card {k. k < length [milk, eggs, milk] \<and> \<not> isCompleted ([milk, eggs, milk] ! k)} = 2"
proof -
  have "remaining \<lparr>todos = Some [milk, eggs, milk], input = []\<rparr> = 2"
    by (simp add: remaining_def milk_def eggs_def)
  then show ?thesis
    using remaining_counts_incomplete [where a = "\<lparr>todos = None, input = []\<rparr>" and ts = "[milk, eggs, milk]"]
    by simp
qed

text \<open>
  C8. The list area is the paragraph "Loading..." exactly when no result has arrived, the
  paragraph "No todos yet. Add one above!" exactly when the delivered list is empty, and
  a list of items exactly when the delivered list has at least one record; then it has
  one item for each record, in order. The footer is absent exactly in the first two
  cases and shows the remaining count in the third.
\<close>

theorem App_three_states:
  "(list_area (App a) = P ''Loading...'' \<longleftrightarrow> todos a = None)
   \<and> (list_area (App a) = P ''No todos yet. Add one above!'' \<longleftrightarrow> todos a = Some [])
   \<and> ((\<exists>items. list_area (App a) = Ul items) \<longleftrightarrow> (\<exists>ts. todos a = Some ts \<and> 1 \<le> length ts))
   \<and> (footer (App a) = None \<longleftrightarrow> todos a = None \<or> todos a = Some [])
   \<and> (\<forall>ts. todos a = Some ts \<and> 1 \<le> length ts \<longrightarrow>
         list_area (App a) = Ul (map render_todo ts)
         \<and> footer (App a) =
             Some [Num (remaining a), Str '' item'',
                   Str (if remaining a \<noteq> 1 then ''s'' else []), Str '' remaining''])"
  by (cases "todos a") (auto simp: App_def Suc_le_eq)

theorem App_three_states_witness:
  "todos \<lparr>todos = Some [milk], input = []\<rparr> = Some [milk] \<and> 1 \<le> length [milk]
   \<and> list_area (App \<lparr>todos = Some [milk], input = []\<rparr>) = Ul [render_todo milk]
   \<and> footer (App \<lparr>todos = Some [milk], input = []\<rparr>) =
       Some [Num 1, Str '' item'', Str [], Str '' remaining'']
   \<and> list_area (App \<lparr>todos = None, input = []\<rparr>) = P ''Loading...''
   \<and> footer (App \<lparr>todos = None, input = []\<rparr>) = None
   \<and> list_area (App \<lparr>todos = Some [], input = []\<rparr>) = P ''No todos yet. Add one above!''
   \<and> footer (App \<lparr>todos = Some [], input = []\<rparr>) = None"
proof -
  have r: "remaining \<lparr>todos = Some [milk], input = []\<rparr> = 1"
    by (simp add: remaining_def milk_def)
  show ?thesis
    using r App_three_states [of "\<lparr>todos = Some [milk], input = []\<rparr>"]
      App_three_states [of "\<lparr>todos = None, input = []\<rparr>"]
      App_three_states [of "\<lparr>todos = Some [], input = []\<rparr>"]
    by simp
qed

text \<open>
  C10. The checkbox of a rendered record issues \<open>toggleTodo\<close> with the record's
  identifier only. Two renderings of the record that differ in the completion flag the
  client sees lead to the same result on the same store, and when the store holds a
  record with the identifier, the flag written is the negation of the stored one.
\<close>

theorem toggle_ignores_rendered_state:
  "checkbox_onChange (render_todo t) = [ToggleTodo (doc_id t)]
   \<and> map (run_call d) (checkbox_onChange (render_todo (t\<lparr>isCompleted := b1\<rparr>))) =
       map (run_call d) (checkbox_onChange (render_todo (t\<lparr>isCompleted := b2\<rparr>)))
   \<and> (\<forall>s. db_get d (doc_id t) = Some s \<longrightarrow>
         (\<exists>d'. map (run_call d) (checkbox_onChange (render_todo t)) = [Inr d']
            \<and> db_get d' (doc_id t) = Some (s\<lparr>isCompleted := \<not> isCompleted s\<rparr>)))"
proof -
  have calls: "\<And>u. checkbox_onChange (render_todo u) = [ToggleTodo (doc_id u)]"
    by (simp add: render_todo_def onChange_def)
  have stored: "\<forall>s. db_get d (doc_id t) = Some s \<longrightarrow>
         (\<exists>d'. map (run_call d) (checkbox_onChange (render_todo t)) = [Inr d']
            \<and> db_get d' (doc_id t) = Some (s\<lparr>isCompleted := \<not> isCompleted s\<rparr>))"
    using toggle_flips [of d "doc_id t"] by (simp add: calls)
  show ?thesis
    using stored by (simp add: calls)
qed

theorem toggle_ignores_rendered_state_witness:
  "db_get one_todo (doc_id (milk\<lparr>isCompleted := True\<rparr>)) = Some milk
   \<and> map (run_call one_todo) (checkbox_onChange (render_todo (milk\<lparr>isCompleted := True\<rparr>))) =
       [Inr one_done]
   \<and> map (run_call one_todo) (checkbox_onChange (render_todo milk)) =
       [Inr one_done]"
proof -
  have i: "doc_id (milk\<lparr>isCompleted := True\<rparr>) = 0" and j: "doc_id milk = 0"
    by (simp_all add: milk_def)
  show ?thesis
    using toggle_ignores_rendered_state [of "milk\<lparr>isCompleted := True\<rparr>" one_todo True False]
    by (simp add: i j get_milk toggle_milk render_todo_def onChange_def)
qed

end
